theory Spec2Isabelle
  imports Main
begin

section \<open>Callables\<close>

text \<open>
  The module \<^verbatim>\<open>chainlit/callbacks.py\<close> receives functions from user code, builds
  new callables around some of them and stores the results in \<^verbatim>\<open>config.code\<close>.
  A callable is a Python object: two callables are the same exactly when they are the
  same object. \<open>Function n\<close> is the function object number \<open>n\<close> handed in from outside;
  the other constructors are the objects that a registration creates.
\<close>

datatype callable =
    Function nat
  | WrapUserFunction callable "bool option"
  | StepFunction callable string string
  | WithParentId callable

text \<open>
  Modelled from the spec: \<^verbatim>\<open>wrap_user_function\<close> of \<^verbatim>\<open>chainlit.utils\<close> is imported by
  the module and is not part of it. The spec calls it a generic utility that normalizes
  the sync/async calling convention and the execution context, and says that a
  registration stores a wrapped reference while returning the original function: the
  result is a new callable around \<open>user_function\<close>. The second argument is
  \<^verbatim>\<open>with_task\<close>; \<open>None\<close> stands for a call that leaves it out.
\<close>

definition wrap_user_function :: "callable \<Rightarrow> bool option \<Rightarrow> callable" where
  "wrap_user_function user_function with_task = WrapUserFunction user_function with_task"

text \<open>
  Modelled from the spec: \<^verbatim>\<open>step\<close> of \<^verbatim>\<open>chainlit.step\<close> is imported as well. Applied to
  a function with keyword arguments \<^verbatim>\<open>name\<close> and \<^verbatim>\<open>type\<close> it yields a new callable
  that runs the function inside a step of that name and type.
\<close>

definition step :: "callable \<Rightarrow> string \<Rightarrow> string \<Rightarrow> callable" where
  "step original_function name step_type = StepFunction original_function name step_type"

section \<open>The configuration object\<close>

text \<open>
  \<^verbatim>\<open>config.code\<close> is the shared mutable object. Field \<open>code_x\<close> is the attribute
  \<^verbatim>\<open>config.code.x\<close>; only the attributes that this module assigns are modelled.
  \<^verbatim>\<open>action_callbacks\<close> is a dictionary from action names to callables.
\<close>

record code_settings =
  code_on_app_startup :: "callable option"
  code_on_app_shutdown :: "callable option"
  code_password_auth_callback :: "callable option"
  code_header_auth_callback :: "callable option"
  code_oauth_callback :: "callable option"
  code_on_logout :: "callable option"
  code_on_message :: "callable option"
  code_on_window_message :: "callable option"
  code_on_chat_start :: "callable option"
  code_on_chat_resume :: "callable option"
  code_set_chat_profiles :: "callable option"
  code_set_starters :: "callable option"
  code_on_chat_end :: "callable option"
  code_on_audio_start :: "callable option"
  code_on_audio_chunk :: "callable option"
  code_on_audio_end :: "callable option"
  code_author_rename :: "callable option"
  code_on_mcp_connect :: "callable option"
  code_on_mcp_disconnect :: "callable option"
  code_on_stop :: "callable option"
  code_action_callbacks :: "string \<rightharpoonup> callable"
  code_on_settings_update :: "callable option"
  code_data_layer :: "callable option"
  code_on_feedback :: "callable option"

text \<open>
  Modelled from the spec: the class of \<^verbatim>\<open>config.code\<close> and its defaults live in
  \<^verbatim>\<open>chainlit.config\<close>. The spec gives the lifecycle of a slot as unset at process
  startup and set at registration time, so the start value has every slot unset and no
  action callback.
\<close>

definition initial_code_settings :: code_settings where
  "initial_code_settings = \<lparr>
     code_on_app_startup = None, code_on_app_shutdown = None,
     code_password_auth_callback = None, code_header_auth_callback = None,
     code_oauth_callback = None, code_on_logout = None, code_on_message = None,
     code_on_window_message = None, code_on_chat_start = None, code_on_chat_resume = None,
     code_set_chat_profiles = None, code_set_starters = None, code_on_chat_end = None,
     code_on_audio_start = None, code_on_audio_chunk = None, code_on_audio_end = None,
     code_author_rename = None, code_on_mcp_connect = None, code_on_mcp_disconnect = None,
     code_on_stop = None, code_action_callbacks = Map.empty,
     code_on_settings_update = None, code_data_layer = None, code_on_feedback = None \<rparr>"

datatype error = ValueError string

section \<open>The registration functions\<close>

text \<open>
  Each function takes the callable and the current \<^verbatim>\<open>config.code\<close> and gives back the
  value it returns together with the updated object, in the order of the source file.
\<close>

definition on_app_startup :: "callable \<Rightarrow> code_settings \<Rightarrow> callable \<times> code_settings" where
  "on_app_startup func config =
     (func, config\<lparr>code_on_app_startup := Some (wrap_user_function func (Some False))\<rparr>)"

definition on_app_shutdown :: "callable \<Rightarrow> code_settings \<Rightarrow> callable \<times> code_settings" where
  "on_app_shutdown func config =
     (func, config\<lparr>code_on_app_shutdown := Some (wrap_user_function func (Some False))\<rparr>)"

definition password_auth_callback :: "callable \<Rightarrow> code_settings \<Rightarrow> callable \<times> code_settings" where
  "password_auth_callback func config =
     (func, config\<lparr>code_password_auth_callback := Some (wrap_user_function func None)\<rparr>)"

definition header_auth_callback :: "callable \<Rightarrow> code_settings \<Rightarrow> callable \<times> code_settings" where
  "header_auth_callback func config =
     (func, config\<lparr>code_header_auth_callback := Some (wrap_user_function func None)\<rparr>)"

text \<open>
  \<^verbatim>\<open>oauth_callback\<close> first asks \<^verbatim>\<open>get_configured_oauth_providers()\<close> (module
  \<^verbatim>\<open>chainlit.oauth_providers\<close>, which reads the environment); the list it returns at the
  time of the call is the first argument here. With an empty list the function raises
  before it assigns anything; the result then carries the error and the object as it was.
\<close>

definition oauth_callback ::
  "string list \<Rightarrow> callable \<Rightarrow> code_settings \<Rightarrow> (error + callable) \<times> code_settings" where
  "oauth_callback configured_oauth_providers func config =
     (if length configured_oauth_providers = 0
      then (Inl (ValueError ''You must set the environment variable for at least one oauth provider to use oauth authentication.''), config)
      else (Inr func, config\<lparr>code_oauth_callback := Some (wrap_user_function func None)\<rparr>))"

definition on_logout :: "callable \<Rightarrow> code_settings \<Rightarrow> callable \<times> code_settings" where
  "on_logout func config =
     (func, config\<lparr>code_on_logout := Some (wrap_user_function func None)\<rparr>)"

text \<open>
  \<^verbatim>\<open>on_message\<close> defines the coroutine \<^verbatim>\<open>with_parent_id\<close>, which captures \<open>func\<close>, and
  stores the wrapped coroutine: \<open>WithParentId func\<close> is that closure object.
\<close>

definition on_message :: "callable \<Rightarrow> code_settings \<Rightarrow> callable \<times> code_settings" where
  "on_message func config =
     (func, config\<lparr>code_on_message := Some (wrap_user_function (WithParentId func) None)\<rparr>)"

definition on_window_message :: "callable \<Rightarrow> code_settings \<Rightarrow> callable \<times> code_settings" where
  "on_window_message func config =
     (func, config\<lparr>code_on_window_message := Some (wrap_user_function func None)\<rparr>)"

definition on_chat_start :: "callable \<Rightarrow> code_settings \<Rightarrow> callable \<times> code_settings" where
  "on_chat_start func config =
     (func, config\<lparr>code_on_chat_start :=
        Some (wrap_user_function (step func ''on_chat_start'' ''run'') (Some True))\<rparr>)"

definition on_chat_resume :: "callable \<Rightarrow> code_settings \<Rightarrow> callable \<times> code_settings" where
  "on_chat_resume func config =
     (func, config\<lparr>code_on_chat_resume := Some (wrap_user_function func (Some True))\<rparr>)"

definition set_chat_profiles :: "callable \<Rightarrow> code_settings \<Rightarrow> callable \<times> code_settings" where
  "set_chat_profiles func config =
     (func, config\<lparr>code_set_chat_profiles := Some (wrap_user_function func None)\<rparr>)"

definition set_starters :: "callable \<Rightarrow> code_settings \<Rightarrow> callable \<times> code_settings" where
  "set_starters func config =
     (func, config\<lparr>code_set_starters := Some (wrap_user_function func None)\<rparr>)"

definition on_chat_end :: "callable \<Rightarrow> code_settings \<Rightarrow> callable \<times> code_settings" where
  "on_chat_end func config =
     (func, config\<lparr>code_on_chat_end := Some (wrap_user_function func (Some True))\<rparr>)"

definition on_audio_start :: "callable \<Rightarrow> code_settings \<Rightarrow> callable \<times> code_settings" where
  "on_audio_start func config =
     (func, config\<lparr>code_on_audio_start := Some (wrap_user_function func (Some False))\<rparr>)"

definition on_audio_chunk :: "callable \<Rightarrow> code_settings \<Rightarrow> callable \<times> code_settings" where
  "on_audio_chunk func config =
     (func, config\<lparr>code_on_audio_chunk := Some (wrap_user_function func (Some False))\<rparr>)"

definition on_audio_end :: "callable \<Rightarrow> code_settings \<Rightarrow> callable \<times> code_settings" where
  "on_audio_end func config =
     (func, config\<lparr>code_on_audio_end :=
        Some (wrap_user_function (step func ''on_audio_end'' ''run'') (Some True))\<rparr>)"

definition author_rename :: "callable \<Rightarrow> code_settings \<Rightarrow> callable \<times> code_settings" where
  "author_rename func config =
     (func, config\<lparr>code_author_rename := Some (wrap_user_function func None)\<rparr>)"

definition on_mcp_connect :: "callable \<Rightarrow> code_settings \<Rightarrow> callable \<times> code_settings" where
  "on_mcp_connect func config =
     (func, config\<lparr>code_on_mcp_connect := Some (wrap_user_function func None)\<rparr>)"

definition on_mcp_disconnect :: "callable \<Rightarrow> code_settings \<Rightarrow> callable \<times> code_settings" where
  "on_mcp_disconnect func config =
     (func, config\<lparr>code_on_mcp_disconnect := Some (wrap_user_function func None)\<rparr>)"

definition on_stop :: "callable \<Rightarrow> code_settings \<Rightarrow> callable \<times> code_settings" where
  "on_stop func config =
     (func, config\<lparr>code_on_stop := Some (wrap_user_function func None)\<rparr>)"

text \<open>
  \<^verbatim>\<open>action_callback(name)\<close> only builds the closure \<^verbatim>\<open>decorator\<close> over \<open>name\<close> and
  returns it; the assignment to the dictionary happens when the closure is applied.
\<close>

definition decorator :: "string \<Rightarrow> callable \<Rightarrow> code_settings \<Rightarrow> callable \<times> code_settings" where
  "decorator name func config =
     (func, config\<lparr>code_action_callbacks :=
        (code_action_callbacks config)(name \<mapsto> wrap_user_function func (Some False))\<rparr>)"

definition action_callback ::
  "string \<Rightarrow> code_settings \<Rightarrow>
   (callable \<Rightarrow> code_settings \<Rightarrow> callable \<times> code_settings) \<times> code_settings" where
  "action_callback name config = (decorator name, config)"

definition on_settings_update :: "callable \<Rightarrow> code_settings \<Rightarrow> callable \<times> code_settings" where
  "on_settings_update func config =
     (func, config\<lparr>code_on_settings_update := Some (wrap_user_function func (Some True))\<rparr>)"

definition data_layer :: "callable \<Rightarrow> code_settings \<Rightarrow> callable \<times> code_settings" where
  "data_layer func config = (func, config\<lparr>code_data_layer := Some func\<rparr>)"

definition on_feedback :: "callable \<Rightarrow> code_settings \<Rightarrow> callable \<times> code_settings" where
  "on_feedback func config =
     (func, config\<lparr>code_on_feedback := Some (wrap_user_function func None)\<rparr>)"


section \<open>Registration functions and their slots\<close>

text \<open>
  One name for each registration function of the module. \<^verbatim>\<open>action_callback\<close> is
  curried, so the decorator it produces is named together with its action name.
\<close>

datatype hook =
    OnAppStartup | OnAppShutdown | PasswordAuthCallback | HeaderAuthCallback
  | OAuthCallback | OnLogout | OnMessage | OnWindowMessage | OnChatStart | OnChatResume
  | SetChatProfiles | SetStarters | OnChatEnd | OnAudioStart | OnAudioChunk | OnAudioEnd
  | AuthorRename | OnMcpConnect | OnMcpDisconnect | OnStop | ActionCallback string
  | OnSettingsUpdate | DataLayer | OnFeedback

text \<open>A function without a \<^verbatim>\<open>raise\<close> statement returns normally.\<close>

definition returns :: "callable \<times> code_settings \<Rightarrow> (error + callable) \<times> code_settings" where
  "returns outcome = (Inr (fst outcome), snd outcome)"

text \<open>
  \<open>register h providers func config\<close> is the call of the registration function named
  \<open>h\<close> on \<open>func\<close>; for \<open>ActionCallback name\<close> it is \<^verbatim>\<open>action_callback(name)(func)\<close>.
\<close>

primrec register ::
  "hook \<Rightarrow> string list \<Rightarrow> callable \<Rightarrow> code_settings \<Rightarrow> (error + callable) \<times> code_settings" where
  "register OnAppStartup providers func config = returns (on_app_startup func config)"
| "register OnAppShutdown providers func config = returns (on_app_shutdown func config)"
| "register PasswordAuthCallback providers func config = returns (password_auth_callback func config)"
| "register HeaderAuthCallback providers func config = returns (header_auth_callback func config)"
| "register OAuthCallback providers func config = oauth_callback providers func config"
| "register OnLogout providers func config = returns (on_logout func config)"
| "register OnMessage providers func config = returns (on_message func config)"
| "register OnWindowMessage providers func config = returns (on_window_message func config)"
| "register OnChatStart providers func config = returns (on_chat_start func config)"
| "register OnChatResume providers func config = returns (on_chat_resume func config)"
| "register SetChatProfiles providers func config = returns (set_chat_profiles func config)"
| "register SetStarters providers func config = returns (set_starters func config)"
| "register OnChatEnd providers func config = returns (on_chat_end func config)"
| "register OnAudioStart providers func config = returns (on_audio_start func config)"
| "register OnAudioChunk providers func config = returns (on_audio_chunk func config)"
| "register OnAudioEnd providers func config = returns (on_audio_end func config)"
| "register AuthorRename providers func config = returns (author_rename func config)"
| "register OnMcpConnect providers func config = returns (on_mcp_connect func config)"
| "register OnMcpDisconnect providers func config = returns (on_mcp_disconnect func config)"
| "register OnStop providers func config = returns (on_stop func config)"
| "register (ActionCallback name) providers func config =
     returns (fst (action_callback name config) func (snd (action_callback name config)))"
| "register OnSettingsUpdate providers func config = returns (on_settings_update func config)"
| "register DataLayer providers func config = returns (data_layer func config)"
| "register OnFeedback providers func config = returns (on_feedback func config)"

text \<open>
  \<open>slot h config\<close> reads the place that the registration function \<open>h\<close> assigns: the
  attribute of the same name, or the entry of \<^verbatim>\<open>action_callbacks\<close> under the action name.
\<close>

primrec slot :: "hook \<Rightarrow> code_settings \<Rightarrow> callable option" where
  "slot OnAppStartup config = code_on_app_startup config"
| "slot OnAppShutdown config = code_on_app_shutdown config"
| "slot PasswordAuthCallback config = code_password_auth_callback config"
| "slot HeaderAuthCallback config = code_header_auth_callback config"
| "slot OAuthCallback config = code_oauth_callback config"
| "slot OnLogout config = code_on_logout config"
| "slot OnMessage config = code_on_message config"
| "slot OnWindowMessage config = code_on_window_message config"
| "slot OnChatStart config = code_on_chat_start config"
| "slot OnChatResume config = code_on_chat_resume config"
| "slot SetChatProfiles config = code_set_chat_profiles config"
| "slot SetStarters config = code_set_starters config"
| "slot OnChatEnd config = code_on_chat_end config"
| "slot OnAudioStart config = code_on_audio_start config"
| "slot OnAudioChunk config = code_on_audio_chunk config"
| "slot OnAudioEnd config = code_on_audio_end config"
| "slot AuthorRename config = code_author_rename config"
| "slot OnMcpConnect config = code_on_mcp_connect config"
| "slot OnMcpDisconnect config = code_on_mcp_disconnect config"
| "slot OnStop config = code_on_stop config"
| "slot (ActionCallback name) config = code_action_callbacks config name"
| "slot OnSettingsUpdate config = code_on_settings_update config"
| "slot DataLayer config = code_data_layer config"
| "slot OnFeedback config = code_on_feedback config"

section \<open>The message handler\<close>




section \<open>Auxiliary facts\<close>

lemmas registration_defs =
  on_app_startup_def on_app_shutdown_def password_auth_callback_def header_auth_callback_def
  oauth_callback_def on_logout_def on_message_def on_window_message_def on_chat_start_def
  on_chat_resume_def set_chat_profiles_def set_starters_def on_chat_end_def on_audio_start_def
  on_audio_chunk_def on_audio_end_def author_rename_def on_mcp_connect_def
  on_mcp_disconnect_def on_stop_def decorator_def action_callback_def on_settings_update_def
  data_layer_def on_feedback_def returns_def

lemma wrapper_is_new_object: "wrap_user_function f with_task \<noteq> f"
  unfolding wrap_user_function_def by (induction f arbitrary: with_task) auto

lemma wrapped_closure_is_new_object: "wrap_user_function (WithParentId f) with_task \<noteq> f"
proof
  assume "wrap_user_function (WithParentId f) with_task = f"
  then have "size (wrap_user_function (WithParentId f) with_task) = size f"
    by simp
  then show False
    by (simp add: wrap_user_function_def)
qed

lemma wrapped_step_is_new_object: "wrap_user_function (step f name step_type) with_task \<noteq> f"
proof
  assume "wrap_user_function (step f name step_type) with_task = f"
  then have "size (wrap_user_function (step f name step_type) with_task) = size f"
    by simp
  then show False
    by (simp add: wrap_user_function_def step_def)
qed

lemma register_result:
  "h \<noteq> OAuthCallback \<or> 0 < length providers \<Longrightarrow>
   fst (register h providers func config) = Inr func"
  by (cases h) (simp_all add: registration_defs)

lemma register_result_cases:
  "fst (register h providers func config) = Inr func \<or>
   (h = OAuthCallback \<and> length providers = 0)"
  by (cases h) (simp_all add: registration_defs)


lemma code_settings_by_slots:
  fixes c c' :: code_settings
  assumes "\<And>h. slot h c = slot h c'"
  shows "c = c'"
proof (rule code_settings.equality)
  show "code_action_callbacks c = code_action_callbacks c'"
  proof
    fix name
    show "code_action_callbacks c name = code_action_callbacks c' name"
      using assms [of "ActionCallback name"] by simp
  qed
qed (use assms [of OnAppStartup] assms [of OnAppShutdown] assms [of PasswordAuthCallback]
       assms [of HeaderAuthCallback] assms [of OAuthCallback] assms [of OnLogout]
       assms [of OnMessage] assms [of OnWindowMessage] assms [of OnChatStart]
       assms [of OnChatResume] assms [of SetChatProfiles] assms [of SetStarters]
       assms [of OnChatEnd] assms [of OnAudioStart] assms [of OnAudioChunk]
       assms [of OnAudioEnd] assms [of AuthorRename] assms [of OnMcpConnect]
       assms [of OnMcpDisconnect] assms [of OnStop] assms [of OnSettingsUpdate]
       assms [of DataLayer] assms [of OnFeedback] in simp_all)

lemma register_overwrites:
  "h \<noteq> OAuthCallback \<or> 0 < length providers2 \<Longrightarrow>
   register h providers2 g (snd (register h providers1 f config)) = register h providers2 g config"
  by (cases h) (simp_all add: registration_defs)

lemma register_stores:
  assumes "h \<noteq> OAuthCallback \<or> 0 < length providers"
  shows "\<exists>stored. slot h (snd (register h providers func config)) = Some stored \<and>
    (h = DataLayer \<longrightarrow> stored = func) \<and>
    (h = OnMessage \<longrightarrow> stored = wrap_user_function (WithParentId func) None) \<and>
    (h = OnChatStart \<longrightarrow>
       stored = wrap_user_function (step func ''on_chat_start'' ''run'') (Some True)) \<and>
    (h = OnAudioEnd \<longrightarrow>
       stored = wrap_user_function (step func ''on_audio_end'' ''run'') (Some True)) \<and>
    (h \<in> {OnAppStartup, OnAppShutdown, OnAudioStart, OnAudioChunk} \<or>
       (\<exists>name. h = ActionCallback name) \<longrightarrow>
       stored = wrap_user_function func (Some False)) \<and>
    (h \<in> {OnChatResume, OnChatEnd, OnSettingsUpdate} \<longrightarrow>
       stored = wrap_user_function func (Some True)) \<and>
    (h \<in> {PasswordAuthCallback, HeaderAuthCallback, OAuthCallback, OnLogout, OnWindowMessage,
           SetChatProfiles, SetStarters, AuthorRename, OnMcpConnect, OnMcpDisconnect, OnStop,
           OnFeedback} \<longrightarrow>
       stored = wrap_user_function func None)"
  using assms by (cases h) (auto simp add: registration_defs)

lemma register_stores_injective:
  assumes "h \<noteq> OAuthCallback \<or> 0 < length providers"
    and "f \<noteq> g"
  shows "slot h (snd (register h providers g config)) \<noteq> slot h (snd (register h providers f config'))"
  using assms by (cases h) (simp_all add: registration_defs wrap_user_function_def step_def)

section \<open>Properties of the registration functions\<close>

text \<open>
  Claim C1. Every registration function returns the function it was given, not the
  callable it stored: this holds for \<^verbatim>\<open>on_message\<close>, \<^verbatim>\<open>on_chat_start\<close>,
  \<^verbatim>\<open>data_layer\<close> and the decorator made by \<^verbatim>\<open>action_callback(name)\<close>, and for every
  registration function whenever it returns at all.
\<close>

theorem registration_returns_original_function:
  "fst (on_message func config) = func \<and>
   fst (on_chat_start func config) = func \<and>
   fst (data_layer func config) = func \<and>
   fst (fst (action_callback name config) func config') = func \<and>
   (\<forall>h providers r. fst (register h providers func config) = Inr r \<longrightarrow> r = func) \<and>
   (\<forall>h providers. h \<noteq> OAuthCallback \<or> 0 < length providers \<longrightarrow>
      fst (register h providers func config) = Inr func)"
proof -
  have "r = func" if "fst (register h providers func config) = Inr r" for h providers r
    using that register_result_cases [of h providers func config]
    by (auto simp: oauth_callback_def)
  moreover have "fst (register h providers func config) = Inr func"
    if "h \<noteq> OAuthCallback \<or> 0 < length providers" for h providers
    using that by (rule register_result)
  ultimately show ?thesis
    by (simp add: on_message_def on_chat_start_def data_layer_def action_callback_def
        decorator_def)
qed

theorem registration_returns_original_function_witness:
  "\<exists>r. fst (register OnMessage [] (Function 7) initial_code_settings) = Inr r \<and> r = Function 7"
proof -
  obtain r where r: "fst (register OnMessage [] (Function 7) initial_code_settings) = Inr r"
    by (simp add: returns_def)
  with registration_returns_original_function [of "Function 7" initial_code_settings]
  have "r = Function 7"
    by blast
  with r show ?thesis
    by blast
qed

text \<open>
  Claim C2 says that after a registration the slot equals the registered function
  itself. For \<^verbatim>\<open>password_auth_callback\<close> the slot holds the callable made by
  \<^verbatim>\<open>wrap_user_function\<close>, which is another object.
\<close>

theorem slot_equals_func_counterexample:
  "code_password_auth_callback (snd (password_auth_callback (Function 0) initial_code_settings))
     \<noteq> Some (Function 0)"
  by (simp add: password_auth_callback_def wrap_user_function_def)

text \<open>
  Claim C2, amended. After a registration that returns, the slot holds the registered
  function itself only for \<^verbatim>\<open>data_layer\<close>. \<^verbatim>\<open>on_message\<close> stores the wrapped
  closure \<^verbatim>\<open>with_parent_id\<close>, \<^verbatim>\<open>on_chat_start\<close> and \<^verbatim>\<open>on_audio_end\<close> store the wrapped
  step around the function, and every other registration function stores
  \<^verbatim>\<open>wrap_user_function\<close> applied to the function.
\<close>

theorem slot_holds_stored_callable:
  assumes "h = OAuthCallback \<longrightarrow> 0 < length providers"
  shows "(slot h (snd (register h providers func config)) = Some func) = (h = DataLayer) \<and>
    (h = OnMessage \<longrightarrow> slot h (snd (register h providers func config))
       = Some (wrap_user_function (WithParentId func) None)) \<and>
    (h = OnChatStart \<longrightarrow> slot h (snd (register h providers func config))
       = Some (wrap_user_function (step func ''on_chat_start'' ''run'') (Some True))) \<and>
    (h = OnAudioEnd \<longrightarrow> slot h (snd (register h providers func config))
       = Some (wrap_user_function (step func ''on_audio_end'' ''run'') (Some True))) \<and>
    (h \<notin> {DataLayer, OnMessage, OnChatStart, OnAudioEnd} \<longrightarrow>
       (\<exists>with_task. slot h (snd (register h providers func config))
          = Some (wrap_user_function func with_task)))"
  using assms
  by (cases h)
    (auto simp add: registration_defs wrapper_is_new_object wrapped_closure_is_new_object
      wrapped_step_is_new_object)

theorem slot_holds_stored_callable_witness:
  "slot OAuthCallback (snd (register OAuthCallback [''github''] (Function 3) initial_code_settings))
     = Some (wrap_user_function (Function 3) None) \<and>
   slot OAuthCallback (snd (register OAuthCallback [''github''] (Function 3) initial_code_settings))
     \<noteq> Some (Function 3)"
proof -
  have h: "OAuthCallback = OAuthCallback \<longrightarrow> 0 < length [''github'']"
    by simp
  from slot_holds_stored_callable [OF h, of "Function 3" initial_code_settings]
  show ?thesis
    by (simp add: oauth_callback_def)
qed

text \<open>
  Claim C3. \<^verbatim>\<open>oauth_callback\<close> raises exactly when no OAuth provider is configured at
  the time of the call; with at least one provider it stores the wrapped callback in the
  \<^verbatim>\<open>oauth_callback\<close> slot and returns the function.
\<close>

theorem oauth_callback_raises_iff_no_provider:
  "(\<exists>e. fst (oauth_callback providers func config) = Inl e) = (length providers = 0) \<and>
   (0 < length providers \<longrightarrow>
      oauth_callback providers func config =
        (Inr func, config\<lparr>code_oauth_callback := Some (wrap_user_function func None)\<rparr>))"
  by (simp add: oauth_callback_def)

theorem oauth_callback_raises_iff_no_provider_witness:
  "oauth_callback [''google'', ''github''] (Function 1) initial_code_settings =
     (Inr (Function 1),
      initial_code_settings\<lparr>code_oauth_callback := Some (wrap_user_function (Function 1) None)\<rparr>) \<and>
   (\<exists>e. fst (oauth_callback [] (Function 1) initial_code_settings) = Inl e)"
proof -
  have "0 < length [''google'', ''github'']"
    by simp
  with oauth_callback_raises_iff_no_provider
         [of "[''google'', ''github'']" "Function 1" initial_code_settings]
  have first: "oauth_callback [''google'', ''github''] (Function 1) initial_code_settings =
     (Inr (Function 1),
      initial_code_settings\<lparr>code_oauth_callback := Some (wrap_user_function (Function 1) None)\<rparr>)"
    by blast
  have "length ([] :: string list) = 0"
    by simp
  with oauth_callback_raises_iff_no_provider [of "[]" "Function 1" initial_code_settings]
  have "\<exists>e. fst (oauth_callback [] (Function 1) initial_code_settings) = Inl e"
    by blast
  with first show ?thesis
    by blast
qed

text \<open>
  Claim C4. A registration function other than \<^verbatim>\<open>oauth_callback\<close> never raises: a
  registration that raises is \<^verbatim>\<open>oauth_callback\<close>. For every callable and every
  configuration each of the others returns the callable and has stored a reference to
  it in its slot: the callable itself for \<^verbatim>\<open>data_layer\<close>, and otherwise the wrapper
  that its assignment builds around it.
\<close>

theorem only_oauth_callback_raises:
  "((\<exists>e. fst (register h providers func config) = Inl e) \<longrightarrow> h = OAuthCallback) \<and>
   (h \<noteq> OAuthCallback \<longrightarrow>
      (\<exists>config'. register h providers func config = (Inr func, config')) \<and>
      fst (register h providers func config) = Inr func \<and>
      (\<exists>stored. slot h (snd (register h providers func config)) = Some stored \<and>
         (h = DataLayer \<longrightarrow> stored = func) \<and>
         (h = OnMessage \<longrightarrow> stored = wrap_user_function (WithParentId func) None) \<and>
         (h = OnChatStart \<longrightarrow>
            stored = wrap_user_function (step func ''on_chat_start'' ''run'') (Some True)) \<and>
         (h = OnAudioEnd \<longrightarrow>
            stored = wrap_user_function (step func ''on_audio_end'' ''run'') (Some True)) \<and>
         (h \<in> {OnAppStartup, OnAppShutdown, OnAudioStart, OnAudioChunk} \<or>
       (\<exists>name. h = ActionCallback name) \<longrightarrow>
            stored = wrap_user_function func (Some False)) \<and>
         (h \<in> {OnChatResume, OnChatEnd, OnSettingsUpdate} \<longrightarrow>
            stored = wrap_user_function func (Some True)) \<and>
         (h \<in> {PasswordAuthCallback, HeaderAuthCallback, OnLogout, OnWindowMessage,
                SetChatProfiles, SetStarters, AuthorRename, OnMcpConnect, OnMcpDisconnect,
                OnStop, OnFeedback} \<longrightarrow>
            stored = wrap_user_function func None)))"
proof -
  have result: "fst (register h providers func config) = Inr func" if "h \<noteq> OAuthCallback"
    using that by (simp add: register_result)
  have raised: "h = OAuthCallback" if "fst (register h providers func config) = Inl e" for e
  proof (rule ccontr)
    assume "h \<noteq> OAuthCallback"
    then have "fst (register h providers func config) = Inr func"
      by (rule result)
    with that show False
      by simp
  qed
  have pair: "\<exists>config'. register h providers func config = (Inr func, config')"
    if "h \<noteq> OAuthCallback"
    using result [OF that] by (cases "register h providers func config") simp
  have stored: "\<exists>stored. slot h (snd (register h providers func config)) = Some stored \<and>
         (h = DataLayer \<longrightarrow> stored = func) \<and>
         (h = OnMessage \<longrightarrow> stored = wrap_user_function (WithParentId func) None) \<and>
         (h = OnChatStart \<longrightarrow>
            stored = wrap_user_function (step func ''on_chat_start'' ''run'') (Some True)) \<and>
         (h = OnAudioEnd \<longrightarrow>
            stored = wrap_user_function (step func ''on_audio_end'' ''run'') (Some True)) \<and>
         (h \<in> {OnAppStartup, OnAppShutdown, OnAudioStart, OnAudioChunk} \<or>
       (\<exists>name. h = ActionCallback name) \<longrightarrow>
            stored = wrap_user_function func (Some False)) \<and>
         (h \<in> {OnChatResume, OnChatEnd, OnSettingsUpdate} \<longrightarrow>
            stored = wrap_user_function func (Some True)) \<and>
         (h \<in> {PasswordAuthCallback, HeaderAuthCallback, OnLogout, OnWindowMessage,
                SetChatProfiles, SetStarters, AuthorRename, OnMcpConnect, OnMcpDisconnect,
                OnStop, OnFeedback} \<longrightarrow>
            stored = wrap_user_function func None)"
    if "h \<noteq> OAuthCallback"
  proof -
    from that have "h \<noteq> OAuthCallback \<or> 0 < length providers"
      by simp
    from register_stores [OF this, of func config] obtain stored where
      "slot h (snd (register h providers func config)) = Some stored"
      "h = DataLayer \<longrightarrow> stored = func"
      "h = OnMessage \<longrightarrow> stored = wrap_user_function (WithParentId func) None"
      "h = OnChatStart \<longrightarrow>
         stored = wrap_user_function (step func ''on_chat_start'' ''run'') (Some True)"
      "h = OnAudioEnd \<longrightarrow>
         stored = wrap_user_function (step func ''on_audio_end'' ''run'') (Some True)"
      "h \<in> {OnAppStartup, OnAppShutdown, OnAudioStart, OnAudioChunk} \<or>
       (\<exists>name. h = ActionCallback name) \<longrightarrow>
         stored = wrap_user_function func (Some False)"
      "h \<in> {OnChatResume, OnChatEnd, OnSettingsUpdate} \<longrightarrow>
         stored = wrap_user_function func (Some True)"
      "h \<in> {PasswordAuthCallback, HeaderAuthCallback, OAuthCallback, OnLogout, OnWindowMessage,
           SetChatProfiles, SetStarters, AuthorRename, OnMcpConnect, OnMcpDisconnect, OnStop,
           OnFeedback} \<longrightarrow>
         stored = wrap_user_function func None"
      by blast
    then show ?thesis
      by (intro exI [of _ stored]) simp
  qed
  from raised pair result stored show ?thesis
    by blast
qed

theorem only_oauth_callback_raises_witness:
  "fst (register OnChatStart [] (Function 2) initial_code_settings) = Inr (Function 2) \<and>
   slot OnChatStart (snd (register OnChatStart [] (Function 2) initial_code_settings))
     = Some (wrap_user_function (step (Function 2) ''on_chat_start'' ''run'') (Some True))"
  using only_oauth_callback_raises [of OnChatStart "[]" "Function 2" initial_code_settings]
  by simp



text \<open>
  Claim C6. A slot holds at most one callable: it is unset at the start, and a
  registration that returns replaces whatever an earlier registration through the same
  function left there. After \<open>f\<close> and then \<open>g\<close> have been registered through \<open>h\<close>, the
  configuration is the one that registering \<open>g\<close> alone would give, and the slot of \<open>h\<close>
  holds the one callable that the assignment of \<open>h\<close> builds from \<open>g\<close>, which is not what
  a registration of another function \<open>f\<close> stores.
\<close>

theorem slot_holds_most_recent_registration:
  assumes "h = OAuthCallback \<longrightarrow> 0 < length providers2"
  shows "slot h initial_code_settings = None \<and>
    register h providers2 g (snd (register h providers1 f config)) = register h providers2 g config \<and>
    slot h (snd (register h providers2 g (snd (register h providers1 f config))))
      = slot h (snd (register h providers2 g initial_code_settings)) \<and>
    (\<exists>stored. slot h (snd (register h providers2 g (snd (register h providers1 f config))))
      = Some stored) \<and>
    (\<exists>stored. slot h (snd (register h providers2 g (snd (register h providers1 f config))))
        = Some stored \<and>
         (h = DataLayer \<longrightarrow> stored = g) \<and>
         (h = OnMessage \<longrightarrow> stored = wrap_user_function (WithParentId g) None) \<and>
         (h = OnChatStart \<longrightarrow>
            stored = wrap_user_function (step g ''on_chat_start'' ''run'') (Some True)) \<and>
         (h = OnAudioEnd \<longrightarrow>
            stored = wrap_user_function (step g ''on_audio_end'' ''run'') (Some True)) \<and>
         (h \<in> {OnAppStartup, OnAppShutdown, OnAudioStart, OnAudioChunk} \<or>
            (\<exists>name. h = ActionCallback name) \<longrightarrow>
            stored = wrap_user_function g (Some False)) \<and>
         (h \<in> {OnChatResume, OnChatEnd, OnSettingsUpdate} \<longrightarrow>
            stored = wrap_user_function g (Some True)) \<and>
         (h \<in> {PasswordAuthCallback, HeaderAuthCallback, OAuthCallback, OnLogout,
                OnWindowMessage, SetChatProfiles, SetStarters, AuthorRename, OnMcpConnect,
                OnMcpDisconnect, OnStop, OnFeedback} \<longrightarrow>
            stored = wrap_user_function g None)) \<and>
    (f \<noteq> g \<longrightarrow>
       slot h (snd (register h providers2 g (snd (register h providers1 f config))))
         \<noteq> slot h (snd (register h providers2 f config)))"
proof -
  have unset: "slot h initial_code_settings = None"
    by (cases h) (simp_all add: initial_code_settings_def)
  have ok: "h \<noteq> OAuthCallback \<or> 0 < length providers2"
    using assms by blast
  have over: "register h providers2 g (snd (register h providers1 f config))
      = register h providers2 g config"
    using ok by (rule register_overwrites)
  have same: "slot h (snd (register h providers2 g config))
      = slot h (snd (register h providers2 g initial_code_settings))"
    using ok by (cases h) (auto simp add: registration_defs)
  have some: "\<exists>stored. slot h (snd (register h providers2 g config)) = Some stored"
    using ok by (cases h) (auto simp add: registration_defs)
  have pinned: "\<exists>stored. slot h (snd (register h providers2 g config)) = Some stored \<and>
         (h = DataLayer \<longrightarrow> stored = g) \<and>
         (h = OnMessage \<longrightarrow> stored = wrap_user_function (WithParentId g) None) \<and>
         (h = OnChatStart \<longrightarrow>
            stored = wrap_user_function (step g ''on_chat_start'' ''run'') (Some True)) \<and>
         (h = OnAudioEnd \<longrightarrow>
            stored = wrap_user_function (step g ''on_audio_end'' ''run'') (Some True)) \<and>
         (h \<in> {OnAppStartup, OnAppShutdown, OnAudioStart, OnAudioChunk} \<or>
            (\<exists>name. h = ActionCallback name) \<longrightarrow>
            stored = wrap_user_function g (Some False)) \<and>
         (h \<in> {OnChatResume, OnChatEnd, OnSettingsUpdate} \<longrightarrow>
            stored = wrap_user_function g (Some True)) \<and>
         (h \<in> {PasswordAuthCallback, HeaderAuthCallback, OAuthCallback, OnLogout,
                OnWindowMessage, SetChatProfiles, SetStarters, AuthorRename, OnMcpConnect,
                OnMcpDisconnect, OnStop, OnFeedback} \<longrightarrow>
            stored = wrap_user_function g None)"
    using ok by (rule register_stores)
  have other: "slot h (snd (register h providers2 g config))
      \<noteq> slot h (snd (register h providers2 f config))" if "f \<noteq> g"
    using ok that by (rule register_stores_injective)
  from unset same some pinned other show ?thesis
    unfolding over by blast
qed

theorem slot_holds_most_recent_registration_witness:
  "slot OnStop initial_code_settings = None \<and>
   slot OnStop (snd (register OnStop [] (Function 2)
      (snd (register OnStop [] (Function 1) initial_code_settings))))
     = Some (wrap_user_function (Function 2) None) \<and>
   slot OnStop (snd (register OnStop [] (Function 2)
      (snd (register OnStop [] (Function 1) initial_code_settings))))
     \<noteq> slot OnStop (snd (register OnStop [] (Function 1) initial_code_settings))"
proof -
  have h: "OnStop = OAuthCallback \<longrightarrow> 0 < length ([] :: string list)"
    by simp
  note recent = slot_holds_most_recent_registration
      [OF h, of "Function 2" "[]" "Function 1" initial_code_settings]
  from recent have unset: "slot OnStop initial_code_settings = None"
    by (rule conjunct1)
  from recent obtain stored where
    holds: "slot OnStop (snd (register OnStop [] (Function 2)
      (snd (register OnStop [] (Function 1) initial_code_settings)))) = Some stored" and
    group: "OnStop \<in> {PasswordAuthCallback, HeaderAuthCallback, OAuthCallback, OnLogout,
      OnWindowMessage, SetChatProfiles, SetStarters, AuthorRename, OnMcpConnect,
      OnMcpDisconnect, OnStop, OnFeedback} \<longrightarrow> stored = wrap_user_function (Function 2) None"
    by blast
  have "stored = wrap_user_function (Function 2) None"
    using group by simp
  with holds have pinned: "slot OnStop (snd (register OnStop [] (Function 2)
      (snd (register OnStop [] (Function 1) initial_code_settings))))
     = Some (wrap_user_function (Function 2) None)"
    by (simp only:)
  have "Function 1 \<noteq> Function 2"
    by simp
  with recent have differs: "slot OnStop (snd (register OnStop [] (Function 2)
      (snd (register OnStop [] (Function 1) initial_code_settings))))
     \<noteq> slot OnStop (snd (register OnStop [] (Function 1) initial_code_settings))"
    by blast
  from unset pinned differs show ?thesis
    by (intro conjI)
qed

text \<open>
  Claim C7. \<^verbatim>\<open>data_layer\<close> stores the function as it is, without
  \<^verbatim>\<open>wrap_user_function\<close>, and returns it; every other registration function that
  returns stores a callable made by \<^verbatim>\<open>wrap_user_function\<close>.
\<close>

theorem data_layer_stores_func_unwrapped:
  "data_layer f config = (f, config\<lparr>code_data_layer := Some f\<rparr>) \<and>
   code_data_layer (snd (data_layer f config)) = Some f \<and>
   fst (data_layer f config) = f \<and>
   (\<forall>h providers. h \<noteq> DataLayer \<and> (h = OAuthCallback \<longrightarrow> 0 < length providers) \<longrightarrow>
      (\<exists>inner with_task. slot h (snd (register h providers f config))
         = Some (wrap_user_function inner with_task)))"
proof -
  have "\<exists>inner with_task. slot h (snd (register h providers f config))
         = Some (wrap_user_function inner with_task)"
    if "h \<noteq> DataLayer" and "h = OAuthCallback \<longrightarrow> 0 < length providers" for h providers
    using that by (cases h) (auto simp add: registration_defs)
  then show ?thesis
    by (simp add: data_layer_def)
qed

theorem data_layer_stores_func_unwrapped_witness:
  "code_data_layer (snd (data_layer (Function 5) initial_code_settings)) = Some (Function 5) \<and>
   (\<exists>inner with_task. slot OnFeedback (snd (register OnFeedback [] (Function 5)
       initial_code_settings)) = Some (wrap_user_function inner with_task))"
proof -
  have h: "OnFeedback \<noteq> DataLayer \<and> (OnFeedback = OAuthCallback \<longrightarrow> 0 < length ([] :: string list))"
    by simp
  from data_layer_stores_func_unwrapped [of "Function 5" initial_code_settings] h
  show ?thesis
    by blast
qed

text \<open>
  Claim C8. When \<^verbatim>\<open>oauth_callback\<close> raises because no provider is configured, the
  check has run before any assignment: the \<^verbatim>\<open>oauth_callback\<close> slot and every other
  slot are as before the call.
\<close>

theorem oauth_callback_error_leaves_config:
  assumes "length providers = 0"
  shows "(\<exists>e. fst (oauth_callback providers func config) = Inl e) \<and>
    snd (oauth_callback providers func config) = config \<and>
    code_oauth_callback (snd (oauth_callback providers func config)) = code_oauth_callback config \<and>
    slot h (snd (register OAuthCallback providers func config)) = slot h config"
  using assms by (simp add: oauth_callback_def)

theorem oauth_callback_error_leaves_config_witness:
  "snd (oauth_callback [] (Function 9) (snd (on_stop (Function 4) initial_code_settings)))
     = snd (on_stop (Function 4) initial_code_settings)"
proof -
  have h: "length ([] :: string list) = 0"
    by simp
  from oauth_callback_error_leaves_config [OF h, of "Function 9"
      "snd (on_stop (Function 4) initial_code_settings)"]
  show ?thesis
    by blast
qed




text \<open>
  Claim C10. \<^verbatim>\<open>action_callback(name)\<close> alone changes nothing and yields the decorator
  for \<open>name\<close>. Applying the decorator stores the wrapped function under \<open>name\<close> in
  \<^verbatim>\<open>action_callbacks\<close>, keeps the entry of every other name and every other attribute,
  and a second registration under the same name replaces the first.
\<close>

theorem action_callback_curried_and_keyed:
  "snd (action_callback name config) = config \<and>
   fst (action_callback name config) = decorator name \<and>
   code_action_callbacks (snd (decorator name func config)) name
     = Some (wrap_user_function func (Some False)) \<and>
   (\<forall>other. other \<noteq> name \<longrightarrow>
      code_action_callbacks (snd (decorator name func config)) other
        = code_action_callbacks config other) \<and>
   snd (decorator name g (snd (decorator name f config))) = snd (decorator name g config) \<and>
   (snd (decorator name func config))\<lparr>code_action_callbacks := code_action_callbacks config\<rparr>
     = config"
  by (simp add: action_callback_def decorator_def)

theorem action_callback_curried_and_keyed_witness:
  "code_action_callbacks (snd (decorator ''open'' (Function 2)
      (snd (decorator ''save'' (Function 1) initial_code_settings)))) ''save''
     = Some (wrap_user_function (Function 1) (Some False))"
proof -
  let ?c = "snd (decorator ''save'' (Function 1) initial_code_settings)"
  have d: "''save'' \<noteq> ''open''"
    by simp
  note kept = action_callback_curried_and_keyed [of "''open''" ?c "Function 2",
      THEN conjunct2, THEN conjunct2, THEN conjunct2, THEN conjunct1, rule_format, OF d]
  note stored = action_callback_curried_and_keyed [of "''save''" initial_code_settings
      "Function 1", THEN conjunct2, THEN conjunct2, THEN conjunct1]
  from kept stored show ?thesis
    by (rule trans)
qed

end
